theory Spec2Isabelle
  imports Complex_Main "HOL-Library.Char_ord" "HOL-Library.List_Lexorder" "HOL-Library.Multiset"
begin

section \<open>Numbers\<close>

text \<open>
  Amounts are Python floats (SQLite \<open>REAL\<close>).  Every finite float is a rational number,
  and the model computes with exact rationals: it agrees with the program wherever the
  intermediate results are exactly representable (for instance on whole numbers and
  halves of moderate size), and idealises the rounding of float arithmetic elsewhere.
\<close>

type_synonym amount = rat

text \<open>Python's \<open>int(x)\<close> on a float truncates toward zero.\<close>

definition py_int :: "rat \<Rightarrow> int" where
  "py_int x = (if 0 \<le> x then \<lfloor>x\<rfloor> else \<lceil>x\<rceil>)"

text \<open>
  Python's \<open>round(x, 1)\<close>: the nearest multiple of one tenth, an exact tie going to
  the even last digit.
\<close>

definition round_half_even :: "rat \<Rightarrow> int" where
  "round_half_even y =
     (let f = \<lfloor>y\<rfloor>; d = y - of_int f
      in if d < 1 / 2 then f
         else if 1 / 2 < d then f + 1
         else if even f then f else f + 1)"

definition py_round1 :: "rat \<Rightarrow> rat" where
  "py_round1 x = of_int (round_half_even (x * 10)) / 10"

section \<open>Python values\<close>

text \<open>
  An entry of a Python dictionary that a function reads: the key may be absent
  (\<open>Missing\<close>), or present with the value \<open>None\<close> (\<open>Null\<close>, SQL \<open>NULL\<close> once bound
  to a statement), or present with a value.
\<close>

datatype 'a field = Missing | Null | Val 'a

text \<open>\<open>d.get(k)\<close>: an absent key reads as \<open>None\<close>.\<close>

fun dict_get :: "'a field \<Rightarrow> 'a option" where
  "dict_get Missing = None"
| "dict_get Null = None"
| "dict_get (Val v) = Some v"

text \<open>\<open>1 if d.get(k) else 0\<close>: the truth value of an entry.\<close>

fun truthy :: "bool field \<Rightarrow> bool" where
  "truthy (Val b) = b"
| "truthy _ = False"

text \<open>\<open>s.split(c)\<close> for a separator of one character: never an empty list.\<close>

fun split_char :: "char \<Rightarrow> string \<Rightarrow> string list" where
  "split_char c [] = [[]]"
| "split_char c (x # xs) =
     (if x = c then [] # split_char c xs
      else (case split_char c xs of
              [] \<Rightarrow> [[x]]
            | p # ps \<Rightarrow> (x # p) # ps))"

text \<open>\<open>s.startswith(p)\<close>.\<close>

definition startswith :: "string \<Rightarrow> string \<Rightarrow> bool" where
  "startswith s p = (take (length p) s = p)"

section \<open>The local store (local_auth.py)\<close>

text \<open>
  The SQLite database: three tables, each the list of its rows in insertion order.
  A timestamp is a point in time as a number of microseconds; the program stores
  timestamps as ISO texts of a fixed layout, whose order as texts is the order in time.
  Transaction dates are kept as the texts the program stores and compares.
\<close>

type_synonym timestamp = int

record user_row =
  u_id :: string
  u_email :: string
  u_password_hash :: string
  u_name :: "string option"
  u_phone :: "string option"
  u_pan :: "string option"
  u_created_at :: timestamp
  u_updated_at :: timestamp

record session_row =
  s_token :: string
  s_user_id :: string
  s_expires_at :: timestamp
  s_created_at :: timestamp

record transaction_row =
  tx_id :: string
  tx_user_id :: string
  tx_file_id :: "string option"
  tx_date :: string
  tx_description :: string
  tx_amount :: amount
  tx_type :: string
  tx_category :: "string option"
  tx_subcategory :: "string option"
  tx_is_recurring :: bool
  tx_recurring_frequency :: "string option"
  tx_tax_relevant :: bool
  tx_tax_section :: "string option"
  tx_created_at :: timestamp

record db =
  users :: "user_row list"
  sessions :: "session_row list"
  transactions :: "transaction_row list"

definition init_local_db :: db where
  "init_local_db = \<lparr>users = [], sessions = [], transactions = []\<rparr>"

text \<open>
  What a function returns with \<open>'success': False\<close>: one of its own messages, or the text
  of the exception it caught (a missing dictionary key, a constraint of the schema, a
  subscript of \<open>None\<close>).
\<close>

datatype error =
    Email_already_registered
  | Invalid_credentials
  | Invalid_or_expired_token
  | User_not_found
  | KeyError string
  | IntegrityError string
  | TypeError string

text \<open>The user dictionary that \<open>register_user\<close>, \<open>login_user\<close> and \<open>verify_token\<close> return.\<close>

record user_info =
  ui_id :: string
  ui_email :: string
  ui_name :: "string option"
  ui_phone :: "string option"
  ui_pan :: "string option"

definition user_info_of :: "user_row \<Rightarrow> user_info" where
  "user_info_of u =
     \<lparr>ui_id = u_id u, ui_email = u_email u, ui_name = u_name u,
      ui_phone = u_phone u, ui_pan = u_pan u\<rparr>"

text \<open>
  \<open>register_user\<close>.  \<open>hash\<close> is \<open>hash_password\<close> (SHA-256, hex), \<open>ts\<close> the database's
  \<open>CURRENT_TIMESTAMP\<close>, \<open>uid\<close> the identifier that \<open>uuid.uuid4()\<close> draws.  The insert
  fails on an id that is already a key.
\<close>

definition register_user ::
  "(string \<Rightarrow> string) \<Rightarrow> db \<Rightarrow> timestamp \<Rightarrow> string \<Rightarrow> string \<Rightarrow> string \<Rightarrow>
   string option \<Rightarrow> string option \<Rightarrow> string option \<Rightarrow> (error + user_info) \<times> db" where
  "register_user hash d ts uid email password name phone pan =
     (if \<exists>u \<in> set (users d). u_email u = email then (Inl Email_already_registered, d)
      else if \<exists>u \<in> set (users d). u_id u = uid
        then (Inl (IntegrityError ''UNIQUE constraint failed: users.id''), d)
      else
        (let row = \<lparr>u_id = uid, u_email = email, u_password_hash = hash password,
                    u_name = name, u_phone = phone, u_pan = pan,
                    u_created_at = ts, u_updated_at = ts\<rparr>
         in (Inr (user_info_of row), d\<lparr>users := users d @ [row]\<rparr>)))"

text \<open>
  \<open>login_user\<close>.  \<open>now\<close> is \<open>datetime.now()\<close>, \<open>tok\<close> the token that
  \<open>secrets.token_urlsafe(32)\<close> draws.  The session expires seven days after \<open>now\<close>.
\<close>

definition seven_days :: int where
  "seven_days = 7 * 86400 * 1000000"

text \<open>
  The session dictionary of the result gives the expiry as \<open>int(expires_at.timestamp())\<close>:
  in whole seconds, cut toward zero.
\<close>

definition whole_seconds :: "timestamp \<Rightarrow> int" where
  "whole_seconds t = (if 0 \<le> t then t div 1000000 else - ((- t) div 1000000))"

record session_info =
  access_token :: string
  expires_at :: int

definition login_user ::
  "(string \<Rightarrow> string) \<Rightarrow> db \<Rightarrow> timestamp \<Rightarrow> timestamp \<Rightarrow> string \<Rightarrow> string \<Rightarrow> string \<Rightarrow>
   (error + user_info \<times> session_info) \<times> db" where
  "login_user hash d now ts tok email password =
     (case filter (\<lambda>u. u_email u = email \<and> u_password_hash u = hash password) (users d) of
        [] \<Rightarrow> (Inl Invalid_credentials, d)
      | u # _ \<Rightarrow>
          (if \<exists>s \<in> set (sessions d). s_token s = tok
             then (Inl (IntegrityError ''UNIQUE constraint failed: sessions.token''), d)
           else
             (let row = \<lparr>s_token = tok, s_user_id = u_id u,
                         s_expires_at = now + seven_days, s_created_at = ts\<rparr>
              in (Inr (user_info_of u,
                       \<lparr>access_token = tok,
                        expires_at = whole_seconds (now + seven_days)\<rparr>),
                  d\<lparr>sessions := sessions d @ [row]\<rparr>))))"

text \<open>
  \<open>verify_token\<close>: the join of sessions and users on the user id, restricted to the
  token and to \<open>expires_at > now\<close>; \<open>fetchone()\<close> takes the first row.  The function only
  reads; the model returns the database as well, so that this can be stated.
\<close>

definition token_rows :: "db \<Rightarrow> timestamp \<Rightarrow> string \<Rightarrow> user_row list" where
  "token_rows d now tok =
     concat (map (\<lambda>s. filter (\<lambda>u. s_user_id s = u_id u) (users d))
                 (filter (\<lambda>s. s_token s = tok \<and> now < s_expires_at s) (sessions d)))"

definition verify_token :: "db \<Rightarrow> timestamp \<Rightarrow> string \<Rightarrow> (error + user_info) \<times> db" where
  "verify_token d now tok =
     (case token_rows d now tok of
        [] \<Rightarrow> (Inl Invalid_or_expired_token, d)
      | u # _ \<Rightarrow> (Inr (user_info_of u), d))"

text \<open>\<open>get_user_profile\<close>.\<close>

definition get_user_profile :: "db \<Rightarrow> string \<Rightarrow> error + user_info" where
  "get_user_profile d uid =
     (case filter (\<lambda>u. u_id u = uid) (users d) of
        [] \<Rightarrow> Inl User_not_found
      | u # _ \<Rightarrow> Inr (user_info_of u))"

text \<open>
  \<open>update_user_profile\<close>: the keys of \<open>profile_data\<close> that are present are written
  (a \<open>None\<close> as \<open>NULL\<close>), \<open>updated_at\<close> always.  For an unknown user no row changes, and
  reading the profile back subscripts \<open>None\<close>.
\<close>

record profile_data =
  pd_name :: "string field"
  pd_phone :: "string field"
  pd_pan :: "string field"

fun set_field :: "'a field \<Rightarrow> 'a option \<Rightarrow> 'a option" where
  "set_field Missing old = old"
| "set_field Null old = None"
| "set_field (Val v) old = Some v"

definition update_row :: "profile_data \<Rightarrow> timestamp \<Rightarrow> user_row \<Rightarrow> user_row" where
  "update_row pd ts u =
     u\<lparr>u_name := set_field (pd_name pd) (u_name u),
       u_phone := set_field (pd_phone pd) (u_phone u),
       u_pan := set_field (pd_pan pd) (u_pan u),
       u_updated_at := ts\<rparr>"

definition update_user_profile ::
  "db \<Rightarrow> timestamp \<Rightarrow> string \<Rightarrow> profile_data \<Rightarrow> (error + user_info) \<times> db" where
  "update_user_profile d ts uid pd =
     (let d' = d\<lparr>users := map (\<lambda>u. if u_id u = uid then update_row pd ts u else u) (users d)\<rparr>
      in (case filter (\<lambda>u. u_id u = uid) (users d') of
            [] \<Rightarrow> (Inl (TypeError ''NoneType object is not subscriptable''), d')
          | u # _ \<Rightarrow> (Inr (user_info_of u), d')))"

subsection \<open>The ledger\<close>

text \<open>
  The dictionary handed to \<open>store_transaction\<close>.  Five keys are subscripted (a missing
  one raises \<open>KeyError\<close>) and their columns are \<open>NOT NULL\<close>; the others are read with
  \<open>get\<close>.
\<close>

record transaction_data =
  td_user_id :: "string field"
  td_file_id :: "string field"
  td_date :: "string field"
  td_description :: "string field"
  td_amount :: "amount field"
  td_transaction_type :: "string field"
  td_category :: "string field"
  td_subcategory :: "string field"
  td_is_recurring :: "bool field"
  td_recurring_frequency :: "string field"
  td_tax_relevant :: "bool field"
  td_tax_section :: "string field"

text \<open>
  \<open>d[k]\<close> raises \<open>KeyError\<close> on a missing key; a column declared \<open>NOT NULL\<close> refuses
  \<open>NULL\<close>.  An error ends the function: \<open>bind_err\<close> chains the steps.
\<close>

fun subscript :: "string \<Rightarrow> 'a field \<Rightarrow> error + 'a option" where
  "subscript k Missing = Inl (KeyError k)"
| "subscript k Null = Inr None"
| "subscript k (Val v) = Inr (Some v)"

fun not_null :: "string \<Rightarrow> 'a option \<Rightarrow> error + 'a" where
  "not_null c None = Inl (IntegrityError (''NOT NULL constraint failed: transactions.'' @ c))"
| "not_null c (Some v) = Inr v"

fun bind_err :: "error + 'a \<Rightarrow> ('a \<Rightarrow> error + 'b) \<Rightarrow> error + 'b" where
  "bind_err (Inl e) f = Inl e"
| "bind_err (Inr v) f = f v"

text \<open>
  The row that the insert of \<open>store_transaction\<close> adds, or the first error: the parameter
  tuple is built in the order of the statement, then the insert checks the \<open>NOT NULL\<close>
  columns in the order of the table, then the primary key.  Nothing looks at the sign of
  the amount or at the value of the type.
\<close>

definition new_transaction_row ::
  "db \<Rightarrow> timestamp \<Rightarrow> string \<Rightarrow> transaction_data \<Rightarrow> error + transaction_row" where
  "new_transaction_row d ts tid td =
     bind_err (subscript ''user_id'' (td_user_id td)) (\<lambda>uid.
     bind_err (subscript ''date'' (td_date td)) (\<lambda>dt.
     bind_err (subscript ''description'' (td_description td)) (\<lambda>ds.
     bind_err (subscript ''amount'' (td_amount td)) (\<lambda>am.
     bind_err (subscript ''transaction_type'' (td_transaction_type td)) (\<lambda>ty.
     bind_err (not_null ''user_id'' uid) (\<lambda>uid'.
     bind_err (not_null ''date'' dt) (\<lambda>dt'.
     bind_err (not_null ''description'' ds) (\<lambda>ds'.
     bind_err (not_null ''amount'' am) (\<lambda>am'.
     bind_err (not_null ''transaction_type'' ty) (\<lambda>ty'.
       if \<exists>r \<in> set (transactions d). tx_id r = tid
         then Inl (IntegrityError ''UNIQUE constraint failed: transactions.id'')
       else Inr \<lparr>tx_id = tid, tx_user_id = uid',
                 tx_file_id = dict_get (td_file_id td),
                 tx_date = dt', tx_description = ds', tx_amount = am', tx_type = ty',
                 tx_category = dict_get (td_category td),
                 tx_subcategory = dict_get (td_subcategory td),
                 tx_is_recurring = truthy (td_is_recurring td),
                 tx_recurring_frequency = dict_get (td_recurring_frequency td),
                 tx_tax_relevant = truthy (td_tax_relevant td),
                 tx_tax_section = dict_get (td_tax_section td),
                 tx_created_at = ts\<rparr>))))))))))"

text \<open>
  \<open>store_transaction\<close>.  \<open>tid\<close> is the identifier that \<open>uuid.uuid4()\<close> draws, \<open>ts\<close> the
  database's \<open>CURRENT_TIMESTAMP\<close>.  Every exception is caught and reported.
\<close>

definition store_transaction ::
  "db \<Rightarrow> timestamp \<Rightarrow> string \<Rightarrow> transaction_data \<Rightarrow> (error + string) \<times> db" where
  "store_transaction d ts tid td =
     (case new_transaction_row d ts tid td of
        Inl e \<Rightarrow> (Inl e, d)
      | Inr row \<Rightarrow> (Inr tid, d\<lparr>transactions := transactions d @ [row]\<rparr>))"

text \<open>
  The filters of \<open>get_user_transactions\<close>; no dictionary, or an empty one, is the record
  with every key missing.  A filter whose value is \<open>None\<close> compares with \<open>NULL\<close>, which no
  row satisfies.  Dates compare as texts.
\<close>

record filters =
  f_category :: "string field"
  f_transaction_type :: "string field"
  f_start_date :: "string field"
  f_end_date :: "string field"

definition no_filters :: filters where
  "no_filters =
     \<lparr>f_category = Missing, f_transaction_type = Missing,
      f_start_date = Missing, f_end_date = Missing\<rparr>"

fun sql_test :: "'a field \<Rightarrow> ('a \<Rightarrow> bool) \<Rightarrow> bool" where
  "sql_test Missing p = True"
| "sql_test Null p = False"
| "sql_test (Val v) p = p v"

definition row_matches :: "string \<Rightarrow> filters \<Rightarrow> transaction_row \<Rightarrow> bool" where
  "row_matches uid f r \<longleftrightarrow>
     tx_user_id r = uid
     \<and> sql_test (f_category f) (\<lambda>c. tx_category r = Some c)
     \<and> sql_test (f_transaction_type f) (\<lambda>t. tx_type r = t)
     \<and> sql_test (f_start_date f) (\<lambda>s. s \<le> tx_date r)
     \<and> sql_test (f_end_date f) (\<lambda>e. tx_date r \<le> e)"

text \<open>
  \<open>ORDER BY date DESC\<close>.  The statement names no second sort key, so SQL leaves the order
  of rows with equal dates to the engine; the model keeps them in table order (a stable
  insertion sort), which is what a scan in row order followed by a sort gives.
\<close>

fun insert_desc :: "transaction_row \<Rightarrow> transaction_row list \<Rightarrow> transaction_row list" where
  "insert_desc x [] = [x]"
| "insert_desc x (y # ys) =
     (if tx_date y \<le> tx_date x then x # y # ys else y # insert_desc x ys)"

definition order_by_date_desc :: "transaction_row list \<Rightarrow> transaction_row list" where
  "order_by_date_desc rs = foldr insert_desc rs []"

text \<open>\<open>LIMIT l OFFSET o\<close>: a negative limit is no limit, a negative offset is zero.\<close>

definition limit_offset :: "int \<Rightarrow> int \<Rightarrow> 'a list \<Rightarrow> 'a list" where
  "limit_offset l ofs rs =
     (let skipped = drop (nat ofs) rs
      in if l < 0 then skipped else take (nat l) skipped)"

text \<open>\<open>get_user_transactions\<close>; the defaults of the source are \<open>limit=1000, offset=0\<close>.\<close>

definition get_user_transactions ::
  "db \<Rightarrow> string \<Rightarrow> int \<Rightarrow> int \<Rightarrow> filters \<Rightarrow> error + transaction_row list" where
  "get_user_transactions d uid l ofs f =
     Inr (limit_offset l ofs
            (order_by_date_desc (filter (row_matches uid f) (transactions d))))"

definition default_limit :: int where
  "default_limit = 1000"

text \<open>
  \<open>get_transaction_summary\<close>.  Both statements select \<open>WHERE user_id = ?\<close>; the second one
  groups the rows whose category is not \<open>NULL\<close>.  A sum over no rows is \<open>NULL\<close>, read as 0.
\<close>

record ledger_summary =
  total_transactions :: nat
  ls_total_income :: amount
  ls_total_expenses :: amount
  ls_net_savings :: amount
  ls_categories :: "string \<Rightarrow> (nat \<times> amount) option"

definition category_group :: "transaction_row list \<Rightarrow> string \<Rightarrow> (nat \<times> amount) option" where
  "category_group rs c =
     (case filter (\<lambda>r. tx_category r = Some c) rs of
        [] \<Rightarrow> None
      | g # gs \<Rightarrow> Some (length (g # gs), sum_list (map tx_amount (g # gs))))"

definition get_transaction_summary :: "db \<Rightarrow> string \<Rightarrow> error + ledger_summary" where
  "get_transaction_summary d uid =
     (let rs = filter (\<lambda>r. tx_user_id r = uid) (transactions d);
          income = sum_list (map (\<lambda>r. if tx_type r = ''credit'' then tx_amount r else 0) rs);
          expenses = sum_list (map (\<lambda>r. if tx_type r = ''debit'' then tx_amount r else 0) rs)
      in Inr \<lparr>total_transactions = length rs,
              ls_total_income = income,
              ls_total_expenses = expenses,
              ls_net_savings = income - expenses,
              ls_categories = category_group rs\<rparr>)"



section \<open>Dashboard: financial summary and insights (dashboard.py)\<close>

text \<open>
  The summary dictionary.  The five money fields are Python ints (the results of
  \<open>int(...)\<close>, or the literal 0); \<open>savings_rate\<close> is the result of \<open>round(..., 1)\<close>.
\<close>

record financial_summary =
  total_income :: int
  total_expenses :: int
  net_savings :: int
  monthly_income :: int
  monthly_expenses :: int
  savings_rate :: rat

definition get_empty_financial_summary :: financial_summary where
  "get_empty_financial_summary =
     \<lparr>total_income = 0, total_expenses = 0, net_savings = 0,
      monthly_income = 0, monthly_expenses = 0, savings_rate = 0\<rparr>"

text \<open>
  \<open>calculate_financial_summary_from_data\<close>.  The transactions are the dictionaries that
  \<open>get_user_transactions\<close> returns; \<open>start_date\<close> and \<open>end_date\<close> are dates, of which
  only the number of days between them is used, so the model takes them as day numbers.
  The sums run over the float of each amount; the debit sum takes absolute values; the
  five money fields are cut to integers at the end and the rate is rounded.
\<close>

definition calculate_financial_summary_from_data ::
  "transaction_row list \<Rightarrow> int \<Rightarrow> int \<Rightarrow> financial_summary" where
  "calculate_financial_summary_from_data txs start_date end_date =
     (if txs = [] then get_empty_financial_summary
      else
        (let income = sum_list (map tx_amount (filter (\<lambda>t. tx_type t = ''credit'') txs));
             expenses = sum_list (map (\<lambda>t. \<bar>tx_amount t\<bar>)
                                      (filter (\<lambda>t. tx_type t = ''debit'') txs));
             net = income - expenses;
             months_in_period = max 1 (of_int (end_date - start_date) / (3044 / 100));
             m_income = (if 0 < months_in_period then income / months_in_period else 0);
             m_expenses = (if 0 < months_in_period then expenses / months_in_period else 0);
             rate = (if 0 < income then net / income * 100 else 0)
         in \<lparr>total_income = py_int income,
             total_expenses = py_int expenses,
             net_savings = py_int net,
             monthly_income = py_int m_income,
             monthly_expenses = py_int m_expenses,
             savings_rate = py_round1 rate\<rparr>))"




subsection \<open>The user of a request\<close>

text \<open>
  A value that \<open>json.loads\<close> returns; an object is the list of its entries.  \<open>JNull\<close> is
  also Python's \<open>None\<close>.
\<close>

datatype json =
    JNull
  | JBool bool
  | JNum rat
  | JStr string
  | JArr "json list"
  | JObj "(string \<times> json) list"

text \<open>\<open>data.get('sub')\<close>: a value that is no dictionary has no \<open>get\<close>.\<close>

fun json_get :: "json \<Rightarrow> string \<Rightarrow> json option" where
  "json_get (JObj kvs) k = Some (case map_of kvs k of None \<Rightarrow> JNull | Some v \<Rightarrow> v)"
| "json_get _ k = None"

text \<open>\<open>payload += '=' * (4 - len(payload) % 4)\<close>.\<close>

definition pad_payload :: "string \<Rightarrow> string" where
  "pad_payload payload = payload @ replicate (4 - length payload mod 4) CHR ''=''"

text \<open>
  The second part of a token cut at the dots, padded, decoded and parsed, and its
  \<open>sub\<close> entry.  \<open>b64decode\<close> is \<open>base64.urlsafe_b64decode\<close> and \<open>loads\<close> is \<open>json.loads\<close>,
  both of the Python library; \<open>None\<close> stands for the exception either raises.  Neither
  the first part, nor a third one, nor any key or clock is read.
\<close>

definition jwt_sub ::
  "(string \<Rightarrow> string option) \<Rightarrow> (string \<Rightarrow> json option) \<Rightarrow> string \<Rightarrow> json" where
  "jwt_sub b64decode loads token =
     (case split_char CHR ''.'' token of
        _ # payload # _ \<Rightarrow>
          (case b64decode (pad_payload payload) of
             None \<Rightarrow> JNull
           | Some decoded \<Rightarrow>
               (case loads decoded of
                  None \<Rightarrow> JNull
                | Some data \<Rightarrow>
                    (case json_get data ''sub'' of
                       None \<Rightarrow> JNull
                     | Some v \<Rightarrow> v)))
      | _ \<Rightarrow> JNull)"

text \<open>
  \<open>get_user_id_from_request\<close>, on the value of the \<open>Authorization\<close> header (the empty
  text when the header is absent).  The local store is asked first; a token it does not
  know is read as a JWT.  Every exception ends in \<open>None\<close>.
\<close>

definition get_user_id_from_request ::
  "(string \<Rightarrow> string option) \<Rightarrow> (string \<Rightarrow> json option) \<Rightarrow> db \<Rightarrow> timestamp \<Rightarrow> string \<Rightarrow> json" where
  "get_user_id_from_request b64decode loads d now auth_header =
     (if \<not> startswith auth_header ''Bearer '' then JNull
      else
        (case split_char CHR '' '' auth_header of
           _ # token # _ \<Rightarrow>
             (case fst (verify_token d now token) of
                Inr user \<Rightarrow> JStr (ui_id user)
              | Inl _ \<Rightarrow> jwt_sub b64decode loads token)
         | _ \<Rightarrow> JNull))"

text \<open>
  The message of an insight is an f-string; the model keeps which template it is and the
  number substituted into it:
  \<^item> \<open>Msg_upload\<close>: "Upload your financial documents to get personalized insights and
    recommendations";
  \<^item> \<open>Msg_low r\<close>: "Your savings rate is {r:.1f}%. Consider increasing savings to at
    least 20%";
  \<^item> \<open>Msg_good_start r\<close>: "Good start! Your savings rate is {r:.1f}%. Try to reach 20%
    for optimal financial health";
  \<^item> \<open>Msg_excellent r\<close>: "Excellent! Your savings rate of {r:.1f}% is outstanding. Keep
    it up!";
  \<^item> \<open>Msg_expenses n\<close>: "Your monthly expenses are (rupee sign){n:,}. Review categories
    for optimization opportunities".
\<close>

datatype message =
    Msg_upload
  | Msg_low rat
  | Msg_good_start rat
  | Msg_excellent rat
  | Msg_expenses int

record insight =
  itype :: string
  imessage :: message
  impact :: string
  action_required :: bool

definition insight_info :: insight where
  "insight_info =
     \<lparr>itype = ''info'', imessage = Msg_upload, impact = ''high'', action_required = True\<rparr>"

definition insight_low :: "financial_summary \<Rightarrow> insight" where
  "insight_low fs =
     \<lparr>itype = ''financial'', imessage = Msg_low (savings_rate fs),
      impact = ''high'', action_required = True\<rparr>"

definition insight_good_start :: "financial_summary \<Rightarrow> insight" where
  "insight_good_start fs =
     \<lparr>itype = ''financial'', imessage = Msg_good_start (savings_rate fs),
      impact = ''medium'', action_required = False\<rparr>"

definition insight_excellent :: "financial_summary \<Rightarrow> insight" where
  "insight_excellent fs =
     \<lparr>itype = ''financial'', imessage = Msg_excellent (savings_rate fs),
      impact = ''positive'', action_required = False\<rparr>"

definition insight_spending :: "financial_summary \<Rightarrow> insight" where
  "insight_spending fs =
     \<lparr>itype = ''spending'', imessage = Msg_expenses (monthly_expenses fs),
      impact = ''medium'', action_required = False\<rparr>"

text \<open>The \<open>if\<close>/\<open>elif\<close> ladder on the savings rate: at most one insight.\<close>

definition savings_insights :: "financial_summary \<Rightarrow> insight list" where
  "savings_insights fs =
     (if total_income fs = 0 then [insight_info]
      else if savings_rate fs < 10 then [insight_low fs]
      else if savings_rate fs < 20 then [insight_good_start fs]
      else if 30 \<le> savings_rate fs then [insight_excellent fs]
      else [])"

text \<open>The separate \<open>if\<close> on the monthly expenses.\<close>

definition spending_insights :: "financial_summary \<Rightarrow> insight list" where
  "spending_insights fs = (if 0 < monthly_expenses fs then [insight_spending fs] else [])"

text \<open>
  \<open>generate_insights_from_data\<close>; the tax and CIBIL summaries are parameters the body
  never reads.  The result is \<open>insights[:4]\<close>.
\<close>

definition generate_insights_from_data :: "financial_summary \<Rightarrow> insight list" where
  "generate_insights_from_data fs = take 4 (savings_insights fs @ spending_insights fs)"


section \<open>Ingestion (file_processing.py)\<close>

text \<open>
  A candidate that the file parser returns: a dictionary with a date, a description, an
  amount and a type.  The date is an object whose \<open>isoformat()\<close> gives a text, or some
  other value (a raw text, \<open>None\<close>) on which that call raises.
\<close>

datatype date_value = Date string | Not_a_date

record candidate =
  c_date :: "date_value field"
  c_description :: "string field"
  c_amount :: "amount field"
  c_type :: "string field"

text \<open>
  What the categorizer returns: \<open>category\<close>, \<open>subcategory\<close>, \<open>is_recurring\<close> and
  \<open>tax_relevant\<close> are subscripted, \<open>frequency\<close> and \<open>tax_section\<close> are read with \<open>get\<close>.
\<close>

record category_info =
  ci_category :: "string field"
  ci_subcategory :: "string field"
  ci_is_recurring :: "bool field"
  ci_frequency :: "string field"
  ci_tax_relevant :: "bool field"
  ci_tax_section :: "string field"

text \<open>A present key keeps its value, and a key read with \<open>get\<close> is always present.\<close>

fun got :: "'a field \<Rightarrow> 'a field" where
  "got Missing = Null"
| "got f = f"

text \<open>
  The body of the first loop of \<open>process_uploaded_file\<close> for one candidate: the record
  to store, or \<open>None\<close> when an exception skipped the candidate.  \<open>categorize\<close> is
  \<open>TransactionCategorizer.categorize_transaction\<close>, \<open>None\<close> when it raises.  The record's
  \<open>created_at\<close> entry, which nothing reads afterwards, is left out.
\<close>

definition transaction_record ::
  "(string option \<Rightarrow> amount option \<Rightarrow> category_info option) \<Rightarrow> string \<Rightarrow> string \<Rightarrow>
   candidate \<Rightarrow> transaction_data option" where
  "transaction_record categorize file_id profile_id c =
     (if c_description c = Missing \<or> c_amount c = Missing then None
      else
        (case categorize (dict_get (c_description c)) (dict_get (c_amount c)) of
           None \<Rightarrow> None
         | Some info \<Rightarrow>
             (case c_date c of
                Val (Date isodate) \<Rightarrow>
                  (if c_type c = Missing \<or> ci_category info = Missing
                      \<or> ci_subcategory info = Missing \<or> ci_is_recurring info = Missing
                      \<or> ci_tax_relevant info = Missing
                   then None
                   else Some
                     \<lparr>td_user_id = Val profile_id,
                      td_file_id = Val file_id,
                      td_date = Val isodate,
                      td_description = c_description c,
                      td_amount = c_amount c,
                      td_transaction_type = c_type c,
                      td_category = ci_category info,
                      td_subcategory = ci_subcategory info,
                      td_is_recurring = ci_is_recurring info,
                      td_recurring_frequency = got (ci_frequency info),
                      td_tax_relevant = ci_tax_relevant info,
                      td_tax_section = got (ci_tax_section info)\<rparr>)
              | _ \<Rightarrow> None)))"

text \<open>The first loop: the candidates that raise are skipped, the others keep their order.\<close>

definition processed_transactions ::
  "(string option \<Rightarrow> amount option \<Rightarrow> category_info option) \<Rightarrow> string \<Rightarrow> string \<Rightarrow>
   candidate list \<Rightarrow> transaction_data list" where
  "processed_transactions categorize file_id profile_id cs =
     List.map_filter (transaction_record categorize file_id profile_id) cs"

text \<open>
  The second loop: every record is handed to \<open>store_transaction\<close>, whatever happened to
  the ones before it; the successes are counted.  \<open>env k\<close> is what the k-th call draws:
  its identifier and the database's timestamp.
\<close>

fun store_loop ::
  "(nat \<Rightarrow> string \<times> timestamp) \<Rightarrow> nat \<Rightarrow> db \<Rightarrow> nat \<Rightarrow> transaction_data list \<Rightarrow> nat \<times> db" where
  "store_loop env k d stored [] = (stored, d)"
| "store_loop env k d stored (td # tds) =
     (case store_transaction d (snd (env k)) (fst (env k)) td of
        (Inr _, d') \<Rightarrow> store_loop env (Suc k) d' (Suc stored) tds
      | (Inl _, d') \<Rightarrow> store_loop env (Suc k) d' stored tds)"

text \<open>
  The totals: \<open>sum(t['amount'] for t in ... if t['transaction_type'] == ...)\<close>.  Adding
  \<open>None\<close> raises \<open>TypeError\<close>.
\<close>

fun sum_amounts :: "amount field list \<Rightarrow> error + amount" where
  "sum_amounts [] = Inr 0"
| "sum_amounts (Val a # fs) = bind_err (sum_amounts fs) (\<lambda>s. Inr (a + s))"
| "sum_amounts (_ # fs) = Inl (TypeError ''unsupported operand type(s) for +'')"

definition total_of_type :: "string \<Rightarrow> transaction_data list \<Rightarrow> error + amount" where
  "total_of_type ty tds =
     sum_amounts (map td_amount (filter (\<lambda>t. td_transaction_type t = Val ty) tds))"

text \<open>
  The category breakdown: a dictionary from the category (which may be \<open>None\<close>) to the
  count and the amount of its records, built record by record.
\<close>

type_synonym breakdown = "string option \<Rightarrow> (nat \<times> amount) option"

fun add_category :: "breakdown \<Rightarrow> transaction_data \<Rightarrow> error + breakdown" where
  "add_category cats td =
     (let category = dict_get (td_category td);
          (n, a) = (case cats category of None \<Rightarrow> (0, 0) | Some e \<Rightarrow> e)
      in case td_amount td of
           Val x \<Rightarrow> Inr (cats(category \<mapsto> (Suc n, a + x)))
         | _ \<Rightarrow> Inl (TypeError ''unsupported operand type(s) for +=''))"

fun category_breakdown :: "breakdown \<Rightarrow> transaction_data list \<Rightarrow> error + breakdown" where
  "category_breakdown cats [] = Inr cats"
| "category_breakdown cats (td # tds) =
     bind_err (add_category cats td) (\<lambda>cats'. category_breakdown cats' tds)"

text \<open>
  The JSON body of the response and its status.  The entry describing the uploaded file
  is left out.  There are three shapes: no transactions found (200, with suggestions),
  processed (200, with next steps), and processing failed (500, with suggestions).
\<close>

record processing_results =
  transactions_count :: nat
  pr_total_income :: amount
  pr_total_expenses :: amount
  pr_net_savings :: amount
  pr_categories :: breakdown
  pr_transactions :: "transaction_data list"

record response =
  status_code :: nat
  r_message :: "string option"
  r_error :: "string option"
  r_details :: "error option"
  r_results :: "processing_results option"
  r_suggestions :: "string list"
  r_next_steps :: "string list"

definition no_transactions_response :: response where
  "no_transactions_response =
     \<lparr>status_code = 200,
      r_message = Some ''File processed but no transactions found'',
      r_error = None,
      r_details = None,
      r_results = Some \<lparr>transactions_count = 0, pr_total_income = 0, pr_total_expenses = 0,
                        pr_net_savings = 0, pr_categories = Map.empty,
                        pr_transactions = []\<rparr>,
      r_suggestions =
        [''Try uploading a bank statement with clear transaction data'',
         ''Ensure the PDF is text-based (not scanned image)'',
         ''CSV files should have standard banking format'',
         ''Check that transactions are clearly formatted''],
      r_next_steps = []\<rparr>"

definition success_response :: "processing_results \<Rightarrow> response" where
  "success_response res =
     \<lparr>status_code = 200,
      r_message = Some ''File processed successfully'',
      r_error = None,
      r_details = None,
      r_results = Some res,
      r_suggestions = [],
      r_next_steps =
        [''View AI Insights for personalized recommendations'',
         ''Check Tax Optimization suggestions'',
         ''Review transaction categorization'',
         ''Generate comprehensive reports'']\<rparr>"

definition failure_response :: "error \<Rightarrow> response" where
  "failure_response e =
     \<lparr>status_code = 500,
      r_message = None,
      r_error = Some ''File processing failed'',
      r_details = Some e,
      r_results = None,
      r_suggestions =
        [''Check if the file format is supported'',
         ''Ensure the file contains transaction data'',
         ''Try a different file or format'',
         ''Contact support if the issue persists''],
      r_next_steps = []\<rparr>"

text \<open>The summary statistics of step 6, over the processed records (stored or not).\<close>

definition summary_statistics :: "transaction_data list \<Rightarrow> error + processing_results" where
  "summary_statistics tds =
     bind_err (total_of_type ''credit'' tds) (\<lambda>income.
     bind_err (total_of_type ''debit'' tds) (\<lambda>expenses.
     bind_err (category_breakdown Map.empty tds) (\<lambda>cats.
       Inr \<lparr>transactions_count = length tds,
            pr_total_income = income,
            pr_total_expenses = expenses,
            pr_net_savings = income - expenses,
            pr_categories = cats,
            pr_transactions = tds\<rparr>)))"

text \<open>
  \<open>process_uploaded_file\<close> from the parser's result on (steps 2 to 6): \<open>txs\<close> is what
  \<open>FileProcessor.process_file\<close> returned, \<open>file_id\<close> the identifier drawn for the upload,
  \<open>profile_id\<close> the authenticated user.  The function returns the response and the
  database it leaves behind; an exception after the second loop undoes nothing.
\<close>

definition process_uploaded_file ::
  "(string option \<Rightarrow> amount option \<Rightarrow> category_info option) \<Rightarrow> (nat \<Rightarrow> string \<times> timestamp) \<Rightarrow>
   db \<Rightarrow> string \<Rightarrow> string \<Rightarrow> candidate list \<Rightarrow> response \<times> db" where
  "process_uploaded_file categorize env d file_id profile_id txs =
     (if txs = [] then (no_transactions_response, d)
      else
        (let processed = processed_transactions categorize file_id profile_id txs;
             (stored_transactions, d') = store_loop env 0 d 0 processed
         in case summary_statistics processed of
              Inl e \<Rightarrow> (failure_response e, d')
            | Inr res \<Rightarrow> (success_response res, d')))"

subsection \<open>The transactions route\<close>

text \<open>
  The pagination of the route \<open>/transactions/<user_id>\<close>, which queries the remote
  store: \<open>page\<close> and \<open>per_page\<close> are the query parameters as integers (\<open>None\<close> when
  absent).  The result is the page size, the offset and the last index of the range
  requested.
\<close>

definition route_pagination :: "int option \<Rightarrow> int option \<Rightarrow> int \<times> int \<times> int" where
  "route_pagination page_arg per_page_arg =
     (let page = (case page_arg of None \<Rightarrow> 1 | Some p \<Rightarrow> p);
          per_page = min (case per_page_arg of None \<Rightarrow> 50 | Some n \<Rightarrow> n) 100;
          offset = (page - 1) * per_page
      in (per_page, offset, offset + per_page - 1))"

subsection \<open>Notions for stating what ingestion does\<close>




section \<open>The states of the store\<close>

text \<open>
  The schema declares \<open>users.id\<close> and \<open>sessions.token\<close> primary keys and
  \<open>sessions.user_id\<close> a reference to \<open>users.id\<close>.
\<close>

definition well_formed :: "db \<Rightarrow> bool" where
  "well_formed d \<longleftrightarrow>
     distinct (map u_id (users d))
     \<and> distinct (map s_token (sessions d))
     \<and> (\<forall>s \<in> set (sessions d). \<exists>u \<in> set (users d). u_id u = s_user_id s)"

text \<open>
  The databases that the writing functions of the program produce from the empty one,
  whatever arguments they get and whatever identifiers, tokens and times are drawn.
\<close>

inductive reachable :: "(string \<Rightarrow> string) \<Rightarrow> db \<Rightarrow> bool" for hash :: "string \<Rightarrow> string" where
  reachable_init: "reachable hash init_local_db"
| reachable_register:
    "reachable hash d \<Longrightarrow>
     reachable hash (snd (register_user hash d ts uid email password name phone pan))"
| reachable_login:
    "reachable hash d \<Longrightarrow>
     reachable hash (snd (login_user hash d now ts tok email password))"
| reachable_update:
    "reachable hash d \<Longrightarrow> reachable hash (snd (update_user_profile d ts uid pd))"
| reachable_store:
    "reachable hash d \<Longrightarrow> reachable hash (snd (store_transaction d ts tid td))"

section \<open>Example data\<close>

text \<open>
  The summary of a window holding one debit of 1000 and no credit, over at most one
  month: no income, monthly expenses of 1000.
\<close>

definition summary_debit_only :: financial_summary where
  "summary_debit_only =
     \<lparr>total_income = 0, total_expenses = 1000, net_savings = - 1000,
      monthly_income = 0, monthly_expenses = 1000, savings_rate = 0\<rparr>"



text \<open>
  A ledger of two users whose rows share the date, the category and the type; the second
  user's row was inserted between the first user's two.
\<close>

definition example_row :: "string \<Rightarrow> string \<Rightarrow> string \<Rightarrow> amount \<Rightarrow> string \<Rightarrow> transaction_row" where
  "example_row tid uid dt am ty =
     \<lparr>tx_id = tid, tx_user_id = uid, tx_file_id = None, tx_date = dt,
      tx_description = ''payment'', tx_amount = am, tx_type = ty,
      tx_category = Some ''Food'', tx_subcategory = None, tx_is_recurring = False,
      tx_recurring_frequency = None, tx_tax_relevant = False, tx_tax_section = None,
      tx_created_at = 0\<rparr>"

definition db_two_users :: db where
  "db_two_users =
     \<lparr>users = [], sessions = [],
      transactions =
        [example_row ''t1'' ''u1'' ''2024-01-10'' 100 ''debit'',
         example_row ''t2'' ''u2'' ''2024-01-10'' 70 ''debit'',
         example_row ''t3'' ''u1'' ''2024-01-15'' 300 ''credit'']\<rparr>"

definition food_debits :: filters where
  "food_debits =
     \<lparr>f_category = Val ''Food'', f_transaction_type = Val ''debit'',
      f_start_date = Val ''2024-01-01'', f_end_date = Val ''2024-01-31''\<rparr>"

text \<open>The same ledger with other rows for the second user; the first user's are as before.\<close>

definition db_two_users_changed :: db where
  "db_two_users_changed =
     \<lparr>users = [], sessions = [],
      transactions =
        [example_row ''t8'' ''u2'' ''2024-01-12'' 5 ''credit'',
         example_row ''t1'' ''u1'' ''2024-01-10'' 100 ''debit'',
         example_row ''t3'' ''u1'' ''2024-01-15'' 300 ''credit'',
         example_row ''t9'' ''u2'' ''2024-01-10'' 5 ''debit'']\<rparr>"

text \<open>A ledger of \<open>n\<close> rows of one user, with the identifiers x, xx, xxx and so on.\<close>

definition db_many_rows :: "nat \<Rightarrow> db" where
  "db_many_rows n =
     \<lparr>users = [], sessions = [],
      transactions =
        map (\<lambda>i. example_row (replicate (Suc i) CHR ''x'') ''u1'' ''2024-01-10'' 1 ''debit'')
            [0..<n]\<rparr>"

text \<open>
  A store after one registration and one login at time 1000: the session expires at
  1000 plus seven days.  The password hash is a stand-in.
\<close>

definition example_hash :: "string \<Rightarrow> string" where
  "example_hash password = ''#'' @ password"

definition db_registered :: db where
  "db_registered =
     snd (register_user example_hash init_local_db 0 ''u1'' ''a@example.com'' ''secret''
            (Some ''A'') None None)"

definition db_logged_in :: db where
  "db_logged_in =
     snd (login_user example_hash db_registered 1000 0 ''tok1'' ''a@example.com'' ''secret'')"

definition example_expiry :: timestamp where
  "example_expiry = 1000 + seven_days"

definition example_user :: user_info where
  "example_user =
     \<lparr>ui_id = ''u1'', ui_email = ''a@example.com'', ui_name = Some ''A'',
      ui_phone = None, ui_pan = None\<rparr>"



text \<open>
  The two library functions on one input each: the padded payload of an unsigned token
  decodes to a JSON text, which parses to an object naming the user "victim".
\<close>

definition example_b64decode :: "string \<Rightarrow> string option" where
  \<open>example_b64decode s =
     (if s = ''eyJzdWIiOiJ2aWN0aW0ifQ=='' then Some ''{"sub":"victim"}'' else None)\<close>

definition example_loads :: "string \<Rightarrow> json option" where
  \<open>example_loads s =
     (if s = ''{"sub":"victim"}'' then Some (JObj [(''sub'', JStr ''victim'')]) else None)\<close>

definition forged_token :: string where
  "forged_token = ''eyJhbGciOiJub25lIn0.eyJzdWIiOiJ2aWN0aW0ifQ.forged''"






section \<open>Insight rules\<close>

lemma length_savings_insights: "length (savings_insights fs) \<le> 1"
  by (simp add: savings_insights_def)

lemma length_spending_insights: "length (spending_insights fs) \<le> 1"
  by (simp add: spending_insights_def)

lemma generate_insights_untruncated:
  "generate_insights_from_data fs = savings_insights fs @ spending_insights fs"
proof -
  have "length (savings_insights fs @ spending_insights fs) \<le> 4"
    using length_savings_insights [of fs] length_spending_insights [of fs] by simp
  then show ?thesis
    by (simp add: generate_insights_from_data_def)
qed



text \<open>
  C7 as stated fails: a summary with no income and positive monthly expenses gets two
  insights, the informational one and the spending review.
\<close>

theorem insights_zero_income_counterexample:
  "total_income summary_debit_only = 0
   \<and> generate_insights_from_data summary_debit_only =
       [insight_info, insight_spending summary_debit_only]
   \<and> length (generate_insights_from_data summary_debit_only) = 2"
  by (simp add: generate_insights_untruncated savings_insights_def spending_insights_def
      summary_debit_only_def)

text \<open>
  C7, amended.  With a total income of zero the first insight is the informational one
  (type "info", action required); it is the only one exactly when the monthly expenses
  are not positive, and it is followed by the spending-review insight when they are.
\<close>

theorem insights_zero_income:
  assumes "total_income fs = 0"
  shows "generate_insights_from_data fs =
           insight_info # (if 0 < monthly_expenses fs then [insight_spending fs] else [])
         \<and> itype (hd (generate_insights_from_data fs)) = ''info''
         \<and> action_required (hd (generate_insights_from_data fs))
         \<and> (length (generate_insights_from_data fs) = 1 \<longleftrightarrow> monthly_expenses fs \<le> 0)"
proof -
  from assms have s: "savings_insights fs = [insight_info]"
    by (simp add: savings_insights_def)
  have g: "generate_insights_from_data fs =
      insight_info # (if 0 < monthly_expenses fs then [insight_spending fs] else [])"
    by (simp add: generate_insights_untruncated s spending_insights_def)
  have "itype (hd (generate_insights_from_data fs)) = ''info''"
    by (simp add: g insight_info_def)
  moreover have "action_required (hd (generate_insights_from_data fs))"
    by (simp add: g insight_info_def)
  moreover have "length (generate_insights_from_data fs) = 1 \<longleftrightarrow> monthly_expenses fs \<le> 0"
    by (simp add: g)
  ultimately show ?thesis
    using g by blast
qed

theorem insights_zero_income_witness:
  "total_income get_empty_financial_summary = 0
   \<and> generate_insights_from_data get_empty_financial_summary = [insight_info]
   \<and> itype (hd (generate_insights_from_data get_empty_financial_summary)) = ''info''
   \<and> action_required (hd (generate_insights_from_data get_empty_financial_summary))"
proof -
  have z: "total_income get_empty_financial_summary = 0"
    by (simp add: get_empty_financial_summary_def)
  have m: "\<not> 0 < monthly_expenses get_empty_financial_summary"
    by (simp add: get_empty_financial_summary_def)
  note t = insights_zero_income [OF z]
  from t have "generate_insights_from_data get_empty_financial_summary =
      insight_info # (if 0 < monthly_expenses get_empty_financial_summary
        then [insight_spending get_empty_financial_summary] else [])"
    by blast
  with m have g: "generate_insights_from_data get_empty_financial_summary = [insight_info]"
    by simp
  from t have "itype (hd (generate_insights_from_data get_empty_financial_summary)) = ''info''"
    and "action_required (hd (generate_insights_from_data get_empty_financial_summary))"
    by blast+
  with z g show ?thesis by blast
qed

section \<open>Appending to the ledger\<close>








section \<open>Reading the ledger\<close>

lemma set_insert_desc: "set (insert_desc x xs) = insert x (set xs)"
  by (induction xs) auto

lemma length_insert_desc: "length (insert_desc x xs) = Suc (length xs)"
  by (induction xs) auto

lemma set_order_by_date_desc: "set (order_by_date_desc rs) = set rs"
  by (induction rs) (simp_all add: order_by_date_desc_def set_insert_desc)

lemma length_order_by_date_desc: "length (order_by_date_desc rs) = length rs"
  by (induction rs) (simp_all add: order_by_date_desc_def length_insert_desc)

lemma sorted_insert_desc:
  "sorted_wrt (\<lambda>a b. tx_date b \<le> tx_date a) xs \<Longrightarrow>
   sorted_wrt (\<lambda>a b. tx_date b \<le> tx_date a) (insert_desc x xs)"
  by (induction xs) (auto simp add: set_insert_desc)

lemma sorted_order_by_date_desc:
  "sorted_wrt (\<lambda>a b. tx_date b \<le> tx_date a) (order_by_date_desc rs)"
  by (induction rs) (simp_all add: order_by_date_desc_def sorted_insert_desc)

lemma set_limit_offset: "set (limit_offset l ofs rs) \<subseteq> set rs"
proof -
  have "set (take (nat l) (drop (nat ofs) rs)) \<subseteq> set (drop (nat ofs) rs)"
    by (rule set_take_subset)
  moreover have "set (drop (nat ofs) rs) \<subseteq> set rs"
    by (rule set_drop_subset)
  ultimately show ?thesis
    by (auto simp add: limit_offset_def Let_def)
qed

lemma sorted_limit_offset:
  "sorted_wrt P rs \<Longrightarrow> sorted_wrt P (limit_offset l ofs rs)"
  by (simp add: limit_offset_def Let_def sorted_wrt_take sorted_wrt_drop)

lemma filter_row_matches_user:
  "filter (row_matches uid f) rs =
   filter (row_matches uid f) (filter (\<lambda>r. tx_user_id r = uid) rs)"
  by (induction rs) (simp_all add: row_matches_def)

lemma get_user_transactions_rows:
  assumes "get_user_transactions d uid l ofs f = Inr txs"
  shows "set txs \<subseteq> {r \<in> set (transactions d). row_matches uid f r}"
proof -
  from assms have "txs = limit_offset l ofs
      (order_by_date_desc (filter (row_matches uid f) (transactions d)))"
    by (simp add: get_user_transactions_def)
  then have "set txs \<subseteq> set (order_by_date_desc (filter (row_matches uid f) (transactions d)))"
    using set_limit_offset by metis
  then show ?thesis
    by (simp add: set_order_by_date_desc)
qed

lemma get_user_transactions_own_rows:
  "get_user_transactions d uid l ofs f =
   get_user_transactions
     (d\<lparr>transactions := filter (\<lambda>r. tx_user_id r = uid) (transactions d)\<rparr>) uid l ofs f"
  using filter_row_matches_user [of uid f "transactions d"]
  by (simp add: get_user_transactions_def)

lemma get_transaction_summary_own_rows:
  "get_transaction_summary d uid =
   get_transaction_summary
     (d\<lparr>transactions := filter (\<lambda>r. tx_user_id r = uid) (transactions d)\<rparr>) uid"
  by (simp add: get_transaction_summary_def)

text \<open>
  C2.  Every row that the query returns is a row of the table whose user id is the one
  requested, whatever the filters and the pagination.  Neither the query nor the summary
  depends on any other user's rows: two databases that hold the same rows for the user
  give the same query result and the same summary (count, totals and categories).
\<close>

theorem ledger_user_isolation:
  "(get_user_transactions d uid l ofs f = Inr txs \<longrightarrow>
      (\<forall>t \<in> set txs. tx_user_id t = uid \<and> t \<in> set (transactions d)))
   \<and> (filter (\<lambda>r. tx_user_id r = uid) (transactions d) =
        filter (\<lambda>r. tx_user_id r = uid) (transactions d') \<longrightarrow>
        get_user_transactions d uid l ofs f = get_user_transactions d' uid l ofs f
        \<and> get_transaction_summary d uid = get_transaction_summary d' uid)"
proof (intro conjI impI ballI)
  fix t
  assume "get_user_transactions d uid l ofs f = Inr txs" and "t \<in> set txs"
  with get_user_transactions_rows [of d uid l ofs f txs]
  have "t \<in> set (transactions d)" and "row_matches uid f t"
    by auto
  then show "tx_user_id t = uid" and "t \<in> set (transactions d)"
    by (simp_all add: row_matches_def)
next
  assume same: "filter (\<lambda>r. tx_user_id r = uid) (transactions d) =
      filter (\<lambda>r. tx_user_id r = uid) (transactions d')"
  show "get_user_transactions d uid l ofs f = get_user_transactions d' uid l ofs f"
    using filter_row_matches_user [of uid f "transactions d"]
      filter_row_matches_user [of uid f "transactions d'"] same
    by (simp add: get_user_transactions_def)
  show "get_transaction_summary d uid = get_transaction_summary d' uid"
    using same by (simp add: get_transaction_summary_def)
qed

theorem ledger_user_isolation_witness:
  "get_user_transactions db_two_users ''u1'' 10 0 food_debits =
     Inr [example_row ''t1'' ''u1'' ''2024-01-10'' 100 ''debit'']
   \<and> tx_user_id (example_row ''t1'' ''u1'' ''2024-01-10'' 100 ''debit'') = ''u1''
   \<and> get_user_transactions db_two_users ''u1'' 10 0 food_debits =
       get_user_transactions db_two_users_changed ''u1'' 10 0 food_debits
   \<and> get_transaction_summary db_two_users ''u1'' =
       get_transaction_summary db_two_users_changed ''u1''"
proof -
  let ?r = "example_row ''t1'' ''u1'' ''2024-01-10'' 100 ''debit''"
  have q: "get_user_transactions db_two_users ''u1'' 10 0 food_debits = Inr [?r]"
    by (simp add: get_user_transactions_def db_two_users_def food_debits_def
        row_matches_def example_row_def order_by_date_desc_def limit_offset_def)
  have same: "filter (\<lambda>r. tx_user_id r = ''u1'') (transactions db_two_users) =
      filter (\<lambda>r. tx_user_id r = ''u1'') (transactions db_two_users_changed)"
    by (simp add: db_two_users_def db_two_users_changed_def example_row_def)
  note t = ledger_user_isolation
    [of db_two_users "''u1''" 10 0 food_debits "[?r]" db_two_users_changed]
  from t q have "\<forall>t \<in> set [?r]. tx_user_id t = ''u1'' \<and> t \<in> set (transactions db_two_users)"
    by blast
  then have u: "tx_user_id ?r = ''u1''"
    by simp
  from t same have
    "get_user_transactions db_two_users ''u1'' 10 0 food_debits =
       get_user_transactions db_two_users_changed ''u1'' 10 0 food_debits
     \<and> get_transaction_summary db_two_users ''u1'' =
       get_transaction_summary db_two_users_changed ''u1''"
    by blast
  with q u show ?thesis
    by blast
qed

section \<open>Order and pagination of the query\<close>

lemma mset_insert_desc: "mset (insert_desc x xs) = add_mset x (mset xs)"
  by (induction xs) auto

lemma mset_order_by_date_desc: "mset (order_by_date_desc rs) = mset rs"
  by (induction rs) (simp_all add: order_by_date_desc_def mset_insert_desc)

lemma length_limit_offset:
  "0 \<le> l \<Longrightarrow> length (limit_offset l ofs rs) = min (nat l) (length rs - nat ofs)"
  by (simp add: limit_offset_def Let_def min.commute)

lemma unlimited_query:
  "get_user_transactions d uid (- 1) 0 f =
   Inr (order_by_date_desc (filter (row_matches uid f) (transactions d)))"
  by (simp add: get_user_transactions_def limit_offset_def)

lemma many_rows_match:
  "filter (row_matches ''u1'' no_filters) (transactions (db_many_rows n)) =
   transactions (db_many_rows n)"
  by (simp add: db_many_rows_def filter_map o_def row_matches_def example_row_def
      no_filters_def)

text \<open>
  C10 as stated fails on the ledger's own query: nothing clamps the limit.  With the
  default limit of 1000, a user with 101 rows gets all 101 in one page.
\<close>

theorem query_limit_counterexample:
  "length (projr (get_user_transactions (db_many_rows 101) ''u1'' default_limit 0 no_filters))
   = 101"
proof -
  have "length (transactions (db_many_rows 101)) = 101"
    by (simp add: db_many_rows_def)
  then show ?thesis
    by (simp add: get_user_transactions_def many_rows_match length_limit_offset
        length_order_by_date_desc default_limit_def)
qed

text \<open>
  C10, amended.  The rows that match a query, taken without limit, are each row of the
  user that passes the filters exactly once, sorted by date descending; the statement
  names no second sort key, so the code fixes no order among rows of equal date.  A
  query with offset and a non-negative limit returns the rows of that list after the
  first \<open>offset\<close>, at most \<open>limit\<close> of them: the ledger does not clamp the limit (its
  default is 1000), and the page has \<open>limit\<close> rows whenever that many remain.  The clamp
  to 100 is in the transactions route alone, which computes the page size as the
  minimum of the requested one (default 50) and 100, and the offset as
  (page - 1) times the page size.
\<close>

theorem query_order_and_pagination:
  assumes "get_user_transactions d uid l ofs f = Inr txs"
    and "get_user_transactions d uid (- 1) 0 f = Inr every"
    and "route_pagination page_arg per_page_arg = (per_page, offset, last_index)"
  shows "sorted_wrt (\<lambda>a b. tx_date b \<le> tx_date a) every
     \<and> mset every = mset (filter (row_matches uid f) (transactions d))
     \<and> sorted_wrt (\<lambda>a b. tx_date b \<le> tx_date a) txs
     \<and> txs = (if l < 0 then drop (nat ofs) every else take (nat l) (drop (nat ofs) every))
     \<and> (0 \<le> l \<longrightarrow> length txs = min (nat l) (length every - nat ofs))
     \<and> per_page \<le> 100
     \<and> per_page = min (case per_page_arg of None \<Rightarrow> 50 | Some n \<Rightarrow> n) 100
     \<and> offset = ((case page_arg of None \<Rightarrow> 1 | Some p \<Rightarrow> p) - 1) * per_page
     \<and> last_index = offset + per_page - 1"
proof -
  let ?rows = "filter (row_matches uid f) (transactions d)"
  from assms(2) have e: "every = order_by_date_desc ?rows"
    by (simp add: unlimited_query)
  from assms(1) have t: "txs = limit_offset l ofs every"
    by (simp add: get_user_transactions_def e)
  have s: "sorted_wrt (\<lambda>a b. tx_date b \<le> tx_date a) every"
    by (simp add: e sorted_order_by_date_desc)
  have m: "mset every = mset ?rows"
    by (simp add: e mset_order_by_date_desc)
  have s': "sorted_wrt (\<lambda>a b. tx_date b \<le> tx_date a) txs"
    unfolding t using s by (rule sorted_limit_offset)
  have p: "txs = (if l < 0 then drop (nat ofs) every else take (nat l) (drop (nat ofs) every))"
    by (simp add: t limit_offset_def Let_def)
  have n: "0 \<le> l \<longrightarrow> length txs = min (nat l) (length every - nat ofs)"
    by (simp add: t length_limit_offset)
  from assms(3) have r: "per_page = min (case per_page_arg of None \<Rightarrow> 50 | Some n \<Rightarrow> n) 100"
    and o: "offset = ((case page_arg of None \<Rightarrow> 1 | Some p \<Rightarrow> p) - 1) * per_page"
    and i: "last_index = offset + per_page - 1"
    by (auto simp add: route_pagination_def Let_def)
  from r have c: "per_page \<le> 100"
    by simp
  from s m s' p n c r o i show ?thesis
    by blast
qed

theorem query_order_and_pagination_witness:
  "get_user_transactions db_two_users ''u1'' 1 1 no_filters =
     Inr [example_row ''t1'' ''u1'' ''2024-01-10'' 100 ''debit'']
   \<and> get_user_transactions db_two_users ''u1'' (- 1) 0 no_filters =
     Inr [example_row ''t3'' ''u1'' ''2024-01-15'' 300 ''credit'',
          example_row ''t1'' ''u1'' ''2024-01-10'' 100 ''debit'']
   \<and> route_pagination (Some 3) (Some 500) = (100, 200, 299)
   \<and> sorted_wrt (\<lambda>a b. tx_date b \<le> tx_date a)
        [example_row ''t3'' ''u1'' ''2024-01-15'' 300 ''credit'',
         example_row ''t1'' ''u1'' ''2024-01-10'' 100 ''debit'']
   \<and> length [example_row ''t1'' ''u1'' ''2024-01-10'' 100 ''debit''] = min (nat 1) (2 - nat 1)"
proof -
  let ?t1 = "example_row ''t1'' ''u1'' ''2024-01-10'' 100 ''debit''"
  let ?t3 = "example_row ''t3'' ''u1'' ''2024-01-15'' 300 ''credit''"
  have a: "get_user_transactions db_two_users ''u1'' 1 1 no_filters = Inr [?t1]"
    by (simp add: get_user_transactions_def db_two_users_def no_filters_def
        row_matches_def example_row_def order_by_date_desc_def limit_offset_def)
  have b: "get_user_transactions db_two_users ''u1'' (- 1) 0 no_filters = Inr [?t3, ?t1]"
    by (simp add: get_user_transactions_def db_two_users_def no_filters_def
        row_matches_def example_row_def order_by_date_desc_def limit_offset_def)
  have c: "route_pagination (Some 3) (Some 500) = (100, 200, 299)"
    by (simp add: route_pagination_def)
  note t = query_order_and_pagination [OF a b c]
  from t have "sorted_wrt (\<lambda>a b. tx_date b \<le> tx_date a) [?t3, ?t1]"
    by blast
  moreover from t have "length [?t1] = min (nat 1) (length [?t3, ?t1] - nat 1)"
    by simp
  ultimately show ?thesis
    using a b c by simp
qed

section \<open>Sessions\<close>

lemma filter_key_unique:
  "distinct (map f xs) \<Longrightarrow> x \<in> set xs \<Longrightarrow> filter (\<lambda>y. f y = f x) xs = [x]"
proof (induction xs)
  case Nil
  then show ?case by simp
next
  case (Cons a xs)
  show ?case
  proof (cases "a = x")
    case True
    with Cons.prems have "f x \<notin> f ` set xs" by simp
    then have "\<forall>y \<in> set xs. f y \<noteq> f x" by (metis image_eqI)
    then have "filter (\<lambda>y. f y = f x) xs = []"
      by (simp add: filter_empty_conv)
    with True show ?thesis by simp
  next
    case False
    with Cons.prems have "x \<in> set xs" and "f a \<noteq> f x" by auto
    with Cons show ?thesis by simp
  qed
qed

lemma token_rows_session:
  assumes wf: "well_formed d" and s: "s \<in> set (sessions d)"
  shows "token_rows d now (s_token s) =
     (if now < s_expires_at s then filter (\<lambda>u. s_user_id s = u_id u) (users d) else [])"
proof -
  from wf have "distinct (map s_token (sessions d))"
    by (simp add: well_formed_def)
  from filter_key_unique [OF this s]
  have "filter (\<lambda>y. s_token y = s_token s) (sessions d) = [s]" .
  then have "filter (\<lambda>y. now < s_expires_at y)
      (filter (\<lambda>y. s_token y = s_token s) (sessions d))
     = (if now < s_expires_at s then [s] else [])"
    by simp
  then have "filter (\<lambda>y. s_token y = s_token s \<and> now < s_expires_at y) (sessions d)
     = (if now < s_expires_at s then [s] else [])"
    by (simp add: conj_commute)
  then show ?thesis
    by (simp add: token_rows_def)
qed

lemma session_user:
  assumes wf: "well_formed d" and s: "s \<in> set (sessions d)"
  shows "\<exists>u \<in> set (users d). u_id u = s_user_id s
           \<and> filter (\<lambda>u. s_user_id s = u_id u) (users d) = [u]"
proof -
  from wf s obtain u where u: "u \<in> set (users d)" and i: "u_id u = s_user_id s"
    by (auto simp add: well_formed_def)
  from wf have "distinct (map u_id (users d))"
    by (simp add: well_formed_def)
  from filter_key_unique [OF this u] i
  have "filter (\<lambda>y. s_user_id s = u_id y) (users d) = [u]"
    by (simp add: eq_commute)
  with u i show ?thesis by blast
qed

lemma token_rows_absent:
  assumes "\<forall>s \<in> set (sessions d). s_token s \<noteq> tok"
  shows "token_rows d now tok = []"
proof -
  from assms have "filter (\<lambda>s. s_token s = tok \<and> now < s_expires_at s) (sessions d) = []"
    by (simp add: filter_empty_conv)
  then show ?thesis
    by (simp add: token_rows_def)
qed

subsection \<open>Every state the program reaches is well formed\<close>

lemma well_formed_init: "well_formed init_local_db"
  by (simp add: well_formed_def init_local_db_def)

lemma well_formed_register:
  assumes "well_formed d"
  shows "well_formed (snd (register_user hash d ts uid email password name phone pan))"
proof -
  have "well_formed (d\<lparr>users := users d @ [u]\<rparr>)"
    if "\<not> (\<exists>v \<in> set (users d). u_id v = u_id u)" for u
    using assms that by (auto simp add: well_formed_def)
  then show ?thesis
    using assms by (simp add: register_user_def Let_def)
qed

lemma well_formed_login:
  assumes "well_formed d"
  shows "well_formed (snd (login_user hash d now ts tok email password))"
proof (cases "filter (\<lambda>u. u_email u = email \<and> u_password_hash u = hash password) (users d)")
  case Nil
  with assms show ?thesis
    by (simp add: login_user_def)
next
  case (Cons u us)
  then have "u \<in> set (filter (\<lambda>u. u_email u = email \<and> u_password_hash u = hash password)
      (users d))"
    by simp
  then have u: "u \<in> set (users d)"
    by simp
  have "well_formed (d\<lparr>sessions := sessions d @ [s]\<rparr>)"
    if "\<not> (\<exists>r \<in> set (sessions d). s_token r = s_token s)" and "s_user_id s = u_id u" for s
    using assms that u by (auto simp add: well_formed_def)
  then show ?thesis
    using assms Cons by (simp add: login_user_def Let_def)
qed

lemma well_formed_update:
  assumes "well_formed d"
  shows "well_formed (snd (update_user_profile d ts uid pd))"
proof -
  let ?g = "\<lambda>u. if u_id u = uid then update_row pd ts u else u"
  have r: "u_id (update_row pd ts u) = u_id u" for u
    by (simp add: update_row_def)
  have k: "u_id (?g u) = u_id u" for u
    by (simp add: r)
  then have m: "map u_id (map ?g (users d)) = map u_id (users d)"
    by (simp add: o_def)
  have e: "\<exists>v \<in> set (map ?g (users d)). u_id v = s_user_id s"
    if "s \<in> set (sessions d)" for s
  proof -
    from assms that obtain u where u: "u \<in> set (users d)" and i: "u_id u = s_user_id s"
      by (auto simp add: well_formed_def)
    from u have "?g u \<in> set (map ?g (users d))"
      by (rule imageI [of u "set (users d)" ?g, unfolded set_map [symmetric]])
    moreover from i k [of u] have "u_id (?g u) = s_user_id s"
      by simp
    ultimately show ?thesis by blast
  qed
  from assms have "distinct (map u_id (map ?g (users d)))"
    unfolding m by (simp add: well_formed_def)
  moreover from assms have "distinct (map s_token (sessions d))"
    by (simp add: well_formed_def)
  ultimately have "well_formed (d\<lparr>users := map ?g (users d)\<rparr>)"
    using e unfolding well_formed_def by simp
  then show ?thesis
    by (simp add: update_user_profile_def Let_def split: list.split)
qed

lemma well_formed_store:
  assumes "well_formed d"
  shows "well_formed (snd (store_transaction d ts tid td))"
  using assms by (simp add: store_transaction_def well_formed_def split: sum.split)

lemma reachable_well_formed: "reachable hash d \<Longrightarrow> well_formed d"
  by (induction rule: reachable.induct)
     (simp_all add: well_formed_init well_formed_register well_formed_login
        well_formed_update well_formed_store)

text \<open>
  C4.  In a well-formed store (tokens and user ids are keys, every session refers to a
  user; every state the program reaches is one), for every session with the token
  presented: strictly before its expiry \<open>verify_token\<close> succeeds and returns the user who
  owns the session; from the instant of expiry on it fails with "Invalid or expired
  token".  For a token that no session has it fails with the same error.  In every case
  the store, and with it the expiry of every session, is left as it was.
\<close>

theorem verify_token_spec:
  assumes "well_formed d"
  shows "(\<forall>s \<in> set (sessions d). s_token s = tok \<longrightarrow>
            (now < s_expires_at s \<longrightarrow>
               (\<exists>u \<in> set (users d). u_id u = s_user_id s
                  \<and> fst (verify_token d now tok) = Inr (user_info_of u)))
            \<and> (s_expires_at s \<le> now \<longrightarrow>
                 fst (verify_token d now tok) = Inl Invalid_or_expired_token))
     \<and> ((\<forall>s \<in> set (sessions d). s_token s \<noteq> tok) \<longrightarrow>
          fst (verify_token d now tok) = Inl Invalid_or_expired_token)
     \<and> ((\<exists>u. fst (verify_token d now tok) = Inr u) \<longleftrightarrow>
          (\<exists>s \<in> set (sessions d). s_token s = tok \<and> now < s_expires_at s))
     \<and> snd (verify_token d now tok) = d"
proof -
  have valid: "\<exists>u \<in> set (users d). u_id u = s_user_id s
      \<and> fst (verify_token d now tok) = Inr (user_info_of u)"
    if "s \<in> set (sessions d)" and "s_token s = tok" and "now < s_expires_at s" for s
  proof -
    from session_user [OF assms that(1)] obtain u where
      u: "u \<in> set (users d)" "u_id u = s_user_id s"
      and f: "filter (\<lambda>u. s_user_id s = u_id u) (users d) = [u]"
      by blast
    from token_rows_session [OF assms that(1), of now] that(2,3) f
    have "token_rows d now tok = [u]"
      by simp
    then have "fst (verify_token d now tok) = Inr (user_info_of u)"
      by (simp add: verify_token_def)
    with u show ?thesis by blast
  qed
  have expired: "fst (verify_token d now tok) = Inl Invalid_or_expired_token"
    if "s \<in> set (sessions d)" and "s_token s = tok" and "s_expires_at s \<le> now" for s
  proof -
    from token_rows_session [OF assms that(1), of now] that(2,3)
    have "token_rows d now tok = []"
      by simp
    then show ?thesis
      by (simp add: verify_token_def)
  qed
  have absent: "fst (verify_token d now tok) = Inl Invalid_or_expired_token"
    if "\<forall>s \<in> set (sessions d). s_token s \<noteq> tok"
    using token_rows_absent [OF that, of now] by (simp add: verify_token_def)
  have iff: "(\<exists>u. fst (verify_token d now tok) = Inr u) \<longleftrightarrow>
      (\<exists>s \<in> set (sessions d). s_token s = tok \<and> now < s_expires_at s)"
  proof
    assume "\<exists>u. fst (verify_token d now tok) = Inr u"
    then obtain u where ok: "fst (verify_token d now tok) = Inr u" ..
    show "\<exists>s \<in> set (sessions d). s_token s = tok \<and> now < s_expires_at s"
    proof (rule ccontr)
      assume "\<not> ?thesis"
      then have "filter (\<lambda>s. s_token s = tok \<and> now < s_expires_at s) (sessions d) = []"
        by (simp add: filter_empty_conv)
      then have "token_rows d now tok = []"
        by (simp add: token_rows_def)
      with ok show False
        by (simp add: verify_token_def)
    qed
  next
    assume "\<exists>s \<in> set (sessions d). s_token s = tok \<and> now < s_expires_at s"
    then obtain s where "s \<in> set (sessions d)" "s_token s = tok" "now < s_expires_at s"
      by blast
    from valid [OF this] show "\<exists>u. fst (verify_token d now tok) = Inr u"
      by blast
  qed
  have same: "snd (verify_token d now tok) = d"
    by (simp add: verify_token_def split: list.split)
  from valid expired absent iff same show ?thesis
    by blast
qed

lemma db_logged_in_rows:
  "db_logged_in =
     \<lparr>users = [\<lparr>u_id = ''u1'', u_email = ''a@example.com'', u_password_hash = ''#secret'',
                 u_name = Some ''A'', u_phone = None, u_pan = None,
                 u_created_at = 0, u_updated_at = 0\<rparr>],
      sessions = [\<lparr>s_token = ''tok1'', s_user_id = ''u1'',
                    s_expires_at = example_expiry, s_created_at = 0\<rparr>],
      transactions = []\<rparr>"
  by (simp add: db_logged_in_def db_registered_def register_user_def login_user_def
      init_local_db_def example_hash_def example_expiry_def Let_def)

lemma db_logged_in_reachable: "reachable example_hash db_logged_in"
  unfolding db_logged_in_def db_registered_def
  by (intro reachable_login reachable_register reachable_init)

theorem verify_token_spec_witness:
  "well_formed db_logged_in
   \<and> fst (verify_token db_logged_in (example_expiry - 1000000) ''tok1'') = Inr example_user
   \<and> fst (verify_token db_logged_in example_expiry ''tok1'') = Inl Invalid_or_expired_token
   \<and> fst (verify_token db_logged_in (example_expiry + 1000000) ''tok1'')
       = Inl Invalid_or_expired_token
   \<and> fst (verify_token db_logged_in 0 ''tok2'') = Inl Invalid_or_expired_token
   \<and> snd (verify_token db_logged_in (example_expiry - 1000000) ''tok1'') = db_logged_in"
proof -
  define s where "s = \<lparr>s_token = ''tok1'', s_user_id = ''u1'',
             s_expires_at = example_expiry, s_created_at = 0\<rparr>"
  have wf: "well_formed db_logged_in"
    using db_logged_in_reachable by (rule reachable_well_formed)
  have s: "s \<in> set (sessions db_logged_in)"
    by (simp add: db_logged_in_rows s_def)
  have tok: "s_token s = ''tok1''" and ex: "s_expires_at s = example_expiry"
    by (simp_all add: s_def)
  have session: "(now < s_expires_at s \<longrightarrow>
               (\<exists>u \<in> set (users db_logged_in). u_id u = s_user_id s
                  \<and> fst (verify_token db_logged_in now ''tok1'') = Inr (user_info_of u)))
            \<and> (s_expires_at s \<le> now \<longrightarrow>
                 fst (verify_token db_logged_in now ''tok1'') = Inl Invalid_or_expired_token)"
    for now
  proof -
    from verify_token_spec [OF wf, of "''tok1''" now]
    have "\<forall>s \<in> set (sessions db_logged_in). s_token s = ''tok1'' \<longrightarrow>
            (now < s_expires_at s \<longrightarrow>
               (\<exists>u \<in> set (users db_logged_in). u_id u = s_user_id s
                  \<and> fst (verify_token db_logged_in now ''tok1'') = Inr (user_info_of u)))
            \<and> (s_expires_at s \<le> now \<longrightarrow>
                 fst (verify_token db_logged_in now ''tok1'') = Inl Invalid_or_expired_token)"
      by (rule conjunct1)
    from bspec [OF this s] tok show ?thesis
      by (rule mp)
  qed
  have before: "fst (verify_token db_logged_in (example_expiry - 1000000) ''tok1'')
      = Inr example_user"
  proof -
    have "example_expiry - 1000000 < s_expires_at s"
      by (simp add: ex)
    with session [of "example_expiry - 1000000"]
    obtain u where u: "u \<in> set (users db_logged_in)"
      and v: "fst (verify_token db_logged_in (example_expiry - 1000000) ''tok1'')
        = Inr (user_info_of u)"
      by blast
    from u have "user_info_of u = example_user"
      by (simp add: db_logged_in_rows user_info_of_def example_user_def)
    with v show ?thesis
      by simp
  qed
  have at: "fst (verify_token db_logged_in example_expiry ''tok1'')
      = Inl Invalid_or_expired_token"
    using session [of example_expiry] by (simp add: ex)
  have after: "fst (verify_token db_logged_in (example_expiry + 1000000) ''tok1'')
      = Inl Invalid_or_expired_token"
    using session [of "example_expiry + 1000000"] by (simp add: ex)
  have "\<forall>r \<in> set (sessions db_logged_in). s_token r \<noteq> ''tok2''"
    by (simp add: db_logged_in_rows)
  with verify_token_spec [OF wf, of "''tok2''" 0]
  have absent: "fst (verify_token db_logged_in 0 ''tok2'') = Inl Invalid_or_expired_token"
    by blast
  from verify_token_spec [OF wf, of "''tok1''" "example_expiry - 1000000"]
  have same: "snd (verify_token db_logged_in (example_expiry - 1000000) ''tok1'')
      = db_logged_in"
    by blast
  from wf before at after absent same show ?thesis
    by blast
qed

section \<open>Ingestion\<close>

text \<open>
  C9.  When the parser returns no candidate, the response is the one for "no
  transactions found": status 200 and no error entry, a count of zero, zero totals, an
  empty category breakdown, an empty list of transactions, and four suggestions; the
  store is left as it was.
\<close>

theorem no_transactions_outcome:
  "status_code (fst (process_uploaded_file categorize env d file_id profile_id [])) = 200
   \<and> r_error (fst (process_uploaded_file categorize env d file_id profile_id [])) = None
   \<and> r_message (fst (process_uploaded_file categorize env d file_id profile_id []))
       = Some ''File processed but no transactions found''
   \<and> r_results (fst (process_uploaded_file categorize env d file_id profile_id []))
       = Some \<lparr>transactions_count = 0, pr_total_income = 0, pr_total_expenses = 0,
                pr_net_savings = 0, pr_categories = Map.empty, pr_transactions = []\<rparr>
   \<and> r_suggestions (fst (process_uploaded_file categorize env d file_id profile_id []))
       = [''Try uploading a bank statement with clear transaction data'',
          ''Ensure the PDF is text-based (not scanned image)'',
          ''CSV files should have standard banking format'',
          ''Check that transactions are clearly formatted'']
   \<and> snd (process_uploaded_file categorize env d file_id profile_id []) = d"
  by (simp add: process_uploaded_file_def no_transactions_response_def)

section \<open>The financial summary\<close>

lemma py_int_of_int: "py_int (of_int n) = n"
  by (simp add: py_int_def)




lemma py_round1_zero: "py_round1 0 = 0"
  by (simp add: py_round1_def round_half_even_def)






lemma floor_rat_neg_numeral_divide:
  "\<lfloor>- (numeral a / numeral b) :: rat\<rfloor> = - numeral a div numeral b"
  by (metis floor_divide_of_int_eq of_int_numeral of_int_neg_numeral minus_divide_left)




lemma py_int_whole: "of_int \<lfloor>x\<rfloor> = x \<Longrightarrow> of_int (py_int x) = x"
  by (metis py_int_of_int)




text \<open>
  The summary with no income and positive monthly expenses, used above for the insights,
  is the summary that the program computes for a single debit of 1000.
\<close>

lemma summary_debit_only_computed:
  "calculate_financial_summary_from_data
     [example_row ''t1'' ''u1'' ''2024-01-10'' 1000 ''debit''] 0 30 = summary_debit_only"
  by (simp add: calculate_financial_summary_from_data_def Let_def example_row_def
      summary_debit_only_def py_int_def py_round1_zero)

section \<open>The user of a request\<close>

lemma split_char_none: "c \<notin> set s \<Longrightarrow> split_char c s = [s]"
  by (induction s) auto

lemma split_char_first:
  "c \<notin> set s \<Longrightarrow> split_char c (s @ c # t) = s # split_char c t"
  by (induction s) auto

lemma split_char_nonempty: "split_char c s \<noteq> []"
  by (induction s) (auto split: list.splits)

lemma jwt_sub_payload:
  assumes "CHR ''.'' \<notin> set hdr" and "CHR ''.'' \<notin> set payload"
    and "b64decode (pad_payload payload) = Some decoded"
    and "loads decoded = Some (JObj kvs)"
  shows "jwt_sub b64decode loads (hdr @ ''.'' @ payload @ ''.'' @ rest) =
     (case map_of kvs ''sub'' of None \<Rightarrow> JNull | Some v \<Rightarrow> v)"
proof -
  have "split_char CHR ''.'' (hdr @ ''.'' @ payload @ ''.'' @ rest) =
      hdr # payload # split_char CHR ''.'' rest"
    using assms(1,2) by (simp add: split_char_first)
  then show ?thesis
    using assms(3,4) by (simp add: jwt_sub_def)
qed

text \<open>
  C3.  For a bearer token that the local store does not accept and that has the shape
  header.payload.signature, with a payload that decodes (after padding) to JSON
  text for an object, \<open>get_user_id_from_request\<close> returns the object's \<open>sub\<close> entry
  (\<open>None\<close> when there is none).  The result is the same for every header part, every
  signature part and every time: nothing is verified, so whoever writes the payload
  chooses the user id.
\<close>

theorem jwt_subject_unverified:
  assumes "auth_header = ''Bearer '' @ token" and "CHR '' '' \<notin> set token"
    and "token = hdr @ ''.'' @ payload @ ''.'' @ sigpart"
    and "CHR ''.'' \<notin> set hdr" and "CHR ''.'' \<notin> set payload"
    and "fst (verify_token d now token) = Inl e"
    and "b64decode (pad_payload payload) = Some decoded"
    and "loads decoded = Some (JObj kvs)"
  shows "get_user_id_from_request b64decode loads d now auth_header =
     (case map_of kvs ''sub'' of None \<Rightarrow> JNull | Some v \<Rightarrow> v)"
proof -
  have b: "startswith auth_header ''Bearer ''"
    by (simp add: assms(1) startswith_def)
  have "split_char CHR '' '' (''Bearer'' @ CHR '' '' # token) =
      ''Bearer'' # split_char CHR '' '' token"
    by (rule split_char_first) simp
  then have s: "split_char CHR '' '' auth_header = [''Bearer'', token]"
    using assms(2) by (simp add: assms(1) split_char_none)
  have "jwt_sub b64decode loads token =
      (case map_of kvs ''sub'' of None \<Rightarrow> JNull | Some v \<Rightarrow> v)"
    unfolding assms(3) using assms(4,5,7,8) by (rule jwt_sub_payload)
  then show ?thesis
    using b s assms(6) by (simp add: get_user_id_from_request_def)
qed

theorem jwt_subject_unverified_witness:
  "CHR '' '' \<notin> set forged_token
   \<and> forged_token = ''eyJhbGciOiJub25lIn0'' @ ''.'' @ ''eyJzdWIiOiJ2aWN0aW0ifQ'' @ ''.''
        @ ''forged''
   \<and> fst (verify_token db_logged_in 2000 forged_token) = Inl Invalid_or_expired_token
   \<and> example_b64decode (pad_payload ''eyJzdWIiOiJ2aWN0aW0ifQ'') \<noteq> None
   \<and> get_user_id_from_request example_b64decode example_loads db_logged_in 2000
        (''Bearer '' @ forged_token) = JStr ''victim''"
proof -
  have sp: "CHR '' '' \<notin> set forged_token"
    by (simp add: forged_token_def)
  have sh: "forged_token = ''eyJhbGciOiJub25lIn0'' @ ''.'' @ ''eyJzdWIiOiJ2aWN0aW0ifQ'' @ ''.''
      @ ''forged''"
    by (simp add: forged_token_def)
  have v: "fst (verify_token db_logged_in 2000 forged_token) = Inl Invalid_or_expired_token"
    by (simp add: verify_token_def token_rows_def db_logged_in_rows forged_token_def)
  have p: "pad_payload ''eyJzdWIiOiJ2aWN0aW0ifQ'' = ''eyJzdWIiOiJ2aWN0aW0ifQ==''"
    by (simp add: pad_payload_def numeral_2_eq_2)
  have b: "example_b64decode (pad_payload ''eyJzdWIiOiJ2aWN0aW0ifQ'')
      = Some (the (example_b64decode ''eyJzdWIiOiJ2aWN0aW0ifQ==''))"
    by (simp add: p example_b64decode_def)
  have l: "example_loads (the (example_b64decode ''eyJzdWIiOiJ2aWN0aW0ifQ==''))
      = Some (JObj [(''sub'', JStr ''victim'')])"
    by (simp add: example_b64decode_def example_loads_def)
  from jwt_subject_unverified
    [where token = forged_token and hdr = "''eyJhbGciOiJub25lIn0''"
       and payload = "''eyJzdWIiOiJ2aWN0aW0ifQ''" and sigpart = "''forged''"
       and d = db_logged_in and now = 2000
       and b64decode = example_b64decode and loads = example_loads,
     OF refl sp sh _ _ v b l]
  have "get_user_id_from_request example_b64decode example_loads db_logged_in 2000
      (''Bearer '' @ forged_token) = JStr ''victim''"
    by simp
  with sp sh v b show ?thesis
    by simp
qed

section \<open>Ingestion of a batch\<close>





lemma store_loop_ledger_only:
  "users (snd (store_loop env k d stored tds)) = users d
   \<and> sessions (snd (store_loop env k d stored tds)) = sessions d"
proof (induction tds arbitrary: k d stored)
  case Nil
  show ?case by simp
next
  case (Cons td tds)
  have "users (snd (store_transaction d ts tid td)) = users d
      \<and> sessions (snd (store_transaction d ts tid td)) = sessions d" for ts tid
    by (simp add: store_transaction_def split: sum.split)
  with Cons show ?case
    by (simp split: prod.split sum.split) (metis snd_conv)
qed



lemma transaction_record_bad_date:
  "c_date c \<noteq> Val (Date dt) \<Longrightarrow>
   transaction_record categorize file_id profile_id c \<noteq> Some td \<or> td_date td \<noteq> Val dt"
  by (auto simp add: transaction_record_def
      split: if_splits option.splits field.splits date_value.splits)












end
